theory Spec2Isabelle
  imports Main
begin

section \<open>JavaScript values and the operators the example server applies to them\<close>

text \<open>
  The request body is whatever the JSON body parser left in \<open>req.body\<close>: a parsed JSON
  document, or \<open>undefined\<close> when nothing was parsed. An object is a finite mapping from
  property names to values (a parsed JSON object has own data properties only, one value
  per name); an array is a list without holes. The payload of a number is never inspected
  by the code below.
\<close>

datatype jsval =
    JUndefined
  | JNull
  | JBool bool
  | JNum int
  | JStr string
  | JArr "jsval list"
  | JObj "string \<Rightarrow> jsval option"

text \<open>Everything a JavaScript expression of this file can throw.\<close>

datatype js_error =
    TypeError
  | Thrown string

text \<open>\<^verbatim>\<open>typeof v\<close>: \<open>null\<close> and arrays answer \<open>object\<close>.\<close>

fun typeof :: "jsval \<Rightarrow> string" where
  "typeof JUndefined = ''undefined''"
| "typeof JNull = ''object''"
| "typeof (JBool b) = ''boolean''"
| "typeof (JNum n) = ''number''"
| "typeof (JStr s) = ''string''"
| "typeof (JArr xs) = ''object''"
| "typeof (JObj ps) = ''object''"

text \<open>\<^verbatim>\<open>v !== null\<close>.\<close>

fun not_null :: "jsval \<Rightarrow> bool" where
  "not_null JNull = False"
| "not_null v = True"

text \<open>
  \<^verbatim>\<open>'method' in v\<close>. The operator throws a TypeError when its right operand is not an
  object. On a parsed object it answers whether the property exists (nothing named
  \<open>method\<close> is inherited from \<open>Object.prototype\<close>); on an array it answers false
  (\<open>method\<close> is neither an index nor \<open>length\<close> nor an array method).
\<close>

fun in_method :: "jsval \<Rightarrow> js_error + bool" where
  "in_method (JObj ps) = Inr (ps ''method'' \<noteq> None)"
| "in_method (JArr xs) = Inr False"
| "in_method v = Inl TypeError"

text \<open>
  \<^verbatim>\<open>v.method\<close>. Reading a property of \<open>undefined\<close> or \<open>null\<close> throws a TypeError;
  a missing property reads as \<open>undefined\<close>.
\<close>

fun get_method :: "jsval \<Rightarrow> js_error + jsval" where
  "get_method JUndefined = Inl TypeError"
| "get_method JNull = Inl TypeError"
| "get_method (JObj ps) = Inr (case ps ''method'' of None \<Rightarrow> JUndefined | Some v \<Rightarrow> v)"
| "get_method v = Inr JUndefined"

text \<open>\<^verbatim>\<open>v === 'literal'\<close>: true exactly for the string with the same characters.\<close>

fun strict_eq_str :: "jsval \<Rightarrow> string \<Rightarrow> bool" where
  "strict_eq_str (JStr a) s = (a = s)"
| "strict_eq_str v s = False"

text \<open>
  \<^verbatim>\<open>a && b\<close> on boolean operands, with exceptions: the right operand is evaluated only
  when the left one is true, so an exception of the right operand is raised only then.
\<close>

fun and_also :: "js_error + bool \<Rightarrow> js_error + bool \<Rightarrow> js_error + bool" where
  "and_also (Inl e) b = Inl e"
| "and_also (Inr False) b = Inr False"
| "and_also (Inr True) b = b"

text \<open>\<^verbatim>\<open>xs.some(p)\<close>: left to right, stops at the first element for which \<open>p\<close> holds.\<close>

fun some :: "('a \<Rightarrow> js_error + bool) \<Rightarrow> 'a list \<Rightarrow> js_error + bool" where
  "some p [] = Inr False"
| "some p (x # xs) =
     (case p x of
        Inl e \<Rightarrow> Inl e
      | Inr True \<Rightarrow> Inr True
      | Inr False \<Rightarrow> some p xs)"

section \<open>The request classifier\<close>

text \<open>
  The test applied to the body itself and, for an array, to each element:
  \<^verbatim>\<open>typeof msg === 'object' && msg !== null && 'method' in msg && msg.method === 'initialize'\<close>
\<close>

definition is_initialize_message :: "jsval \<Rightarrow> js_error + bool" where
  "is_initialize_message msg =
     and_also (Inr (typeof msg = ''object''))
       (and_also (Inr (not_null msg))
          (and_also (in_method msg)
             (case get_method msg of
                Inl e \<Rightarrow> Inl e
              | Inr m \<Rightarrow> Inr (strict_eq_str m ''initialize''))))"

text \<open>
  \<^verbatim>\<open>
  function isInitializeRequest(body) {
      if (Array.isArray(body)) {
          return body.some(msg => ...);
      }
      return typeof body === 'object' && body !== null && 'method' in body && ...;
  }
  \<close>
\<close>

fun isInitializeRequest :: "jsval \<Rightarrow> js_error + bool" where
  "isInitializeRequest (JArr xs) = some is_initialize_message xs"
| "isInitializeRequest body = is_initialize_message body"

text \<open>
  The classifier as the specification words it: a mapping that contains the key
  \<open>method\<close> with the value \<open>initialize\<close>.
\<close>

fun spec_initialize_mapping :: "jsval \<Rightarrow> bool" where
  "spec_initialize_mapping (JObj ps) = (ps ''method'' = Some (JStr ''initialize''))"
| "spec_initialize_mapping v = False"

section \<open>Session identifiers\<close>

text \<open>
  The transport is created with \<^verbatim>\<open>sessionIdGenerator: () => randomUUID()\<close>.
  \<open>randomUUID\<close> of \<open>node:crypto\<close> is not part of this repository. Modelled from the
  Node documentation: it returns the 36 characters of a UUID, 32 lower-case hexadecimal
  digits in groups of 8, 4, 4, 4 and 12 separated by hyphens. The argument is the 128 random
  bits drawn; the fixed version and variant bits of a version 4 UUID are not singled out, so
  the model allows every string the function can return (and some it cannot).
\<close>

definition hex_char :: "nat \<Rightarrow> char" where
  "hex_char d = ''0123456789abcdef'' ! (d mod 16)"

fun hex_digits :: "nat \<Rightarrow> nat \<Rightarrow> string" where
  "hex_digits 0 n = []"
| "hex_digits (Suc k) n = hex_digits k (n div 16) @ [hex_char n]"

definition randomUUID :: "nat \<Rightarrow> string" where
  "randomUUID bits =
     (let h = hex_digits 32 bits
      in take 8 h @ ''-'' @ take 4 (drop 8 h) @ ''-'' @ take 4 (drop 12 h) @ ''-'' @
         take 4 (drop 16 h) @ ''-'' @ drop 20 h)"

text \<open>
  A value that is a string or \<open>undefined\<close> (a request header, \<open>transport.sessionId\<close>)
  used as a condition: \<open>undefined\<close> and the empty string are falsy.
\<close>

fun truthy_str :: "string option \<Rightarrow> bool" where
  "truthy_str None = False"
| "truthy_str (Some s) = (s \<noteq> [])"

section \<open>The session registry\<close>

text \<open>
  A transport is an object of the streamable HTTP transport class, which is not part of
  this file; the model keeps its identity (the reference) only.
\<close>

datatype transport = Transport nat

text \<open>
  \<^verbatim>\<open>const transports = {};\<close>
  The registry is a plain object literal used as a dictionary. Its own properties are the
  stored sessions; like every object literal it inherits the members of
  \<open>Object.prototype\<close>, and a property read \<^verbatim>\<open>transports[k]\<close> finds those too.
\<close>

type_synonym registry = "string \<rightharpoonup> transport"

definition object_prototype_keys :: "string list" where
  "object_prototype_keys =
     [''constructor'', ''__defineGetter__'', ''__defineSetter__'', ''hasOwnProperty'',
      ''__lookupGetter__'', ''__lookupSetter__'', ''isPrototypeOf'', ''propertyIsEnumerable'',
      ''toString'', ''valueOf'', ''__proto__'', ''toLocaleString'']"

text \<open>
  What a read of the registry yields: \<open>undefined\<close>, a stored transport, or the built-in
  function or object that \<open>Object.prototype\<close> holds under that name.
\<close>

datatype property =
    Undefined
  | TransportObj transport
  | Builtin string

text \<open>\<^verbatim>\<open>transports[k]\<close>: the own property if there is one, else the inherited one.\<close>

definition transports_get :: "registry \<Rightarrow> string \<Rightarrow> property" where
  "transports_get r k =
     (case r k of
        Some t \<Rightarrow> TransportObj t
      | None \<Rightarrow> if k \<in> set object_prototype_keys then Builtin k else Undefined)"

text \<open>Objects and functions are truthy, \<open>undefined\<close> is not.\<close>

fun truthy_property :: "property \<Rightarrow> bool" where
  "truthy_property Undefined = False"
| "truthy_property (TransportObj t) = True"
| "truthy_property (Builtin k) = True"

text \<open>
  \<^verbatim>\<open>transports[k] = transport\<close>: creates the own property \<open>k\<close> or replaces its value,
  with no check of what was there. (The one key for which an assignment does not do this
  is \<open>__proto__\<close>, which goes through the inherited accessor; the program assigns under
  \<open>transport.sessionId\<close> only, a string made by \<open>randomUUID\<close>.)
\<close>

definition transports_set :: "registry \<Rightarrow> string \<Rightarrow> transport \<Rightarrow> registry" where
  "transports_set r k t = r(k \<mapsto> t)"

text \<open>
  Modelled from the spec: the registry operation \<open>remove(id)\<close>. The source never removes
  an entry; the specification lists the operation as "used only on close, not exercised by
  the minimal flow". On the plain object it is \<^verbatim>\<open>delete transports[id]\<close>, which drops
  the own property.
\<close>

definition transports_remove :: "registry \<Rightarrow> string \<Rightarrow> registry" where
  "transports_remove r k = r(k := None)"

section \<open>The response object\<close>

datatype payload = Json jsval | Text string

text \<open>
  The part of the response object \<open>res\<close> that the handlers of this file use: the status
  code and the headers they set, the body they send, and the flag \<open>headersSent\<close>, which
  turns true once a response has begun.
\<close>

record response =
  statusCode :: nat
  headers :: "string \<rightharpoonup> string"
  sent :: "payload option"
  headersSent :: bool

definition fresh_response :: response where
  "fresh_response = \<lparr>statusCode = 200, headers = Map.empty, sent = None, headersSent = False\<rparr>"

definition res_status :: "nat \<Rightarrow> response \<Rightarrow> response" where
  "res_status code res = res\<lparr>statusCode := code\<rparr>"

definition res_set :: "string \<Rightarrow> string \<Rightarrow> response \<Rightarrow> response" where
  "res_set name v res = res\<lparr>headers := (headers res)(name \<mapsto> v)\<rparr>"

definition res_json :: "jsval \<Rightarrow> response \<Rightarrow> response" where
  "res_json b res = res\<lparr>sent := Some (Json b), headersSent := True\<rparr>"

definition res_send :: "string \<Rightarrow> response \<Rightarrow> response" where
  "res_send txt res = res\<lparr>sent := Some (Text txt), headersSent := True\<rparr>"

section \<open>The collaborators of the dispatcher\<close>

text \<open>
  The transport class and the protocol engine (\<open>server\<close>) live outside this file. What
  they do during one request is a parameter of the model: any behaviour is allowed.
  \<^item> \<open>new_transport\<close>: the outcome of \<^verbatim>\<open>new StreamableHTTPServerTransport({...})\<close>:
    an exception, or the new object.
  \<^item> \<open>connect t\<close>: the outcome of \<^verbatim>\<open>await server.connect(t)\<close>: the exception it
    throws, if any.
  \<^item> \<open>handleRequest t body\<close>: the outcome of \<^verbatim>\<open>await t.handleRequest(req, res, body)\<close>:
    the exception it throws, if any; whether the response has begun when the call ends;
    and, if the transport ran its session identifier generator, the random bits that
    \<open>randomUUID\<close> drew, so that \<open>t.sessionId\<close> is then the generated string and is
    \<open>undefined\<close> otherwise.
\<close>

record handle_result =
  hr_error :: "js_error option"
  hr_headersSent :: bool
  hr_generated :: "nat option"

record collaborators =
  new_transport :: "js_error + transport"
  connect :: "transport \<Rightarrow> js_error option"
  handleRequest :: "transport \<Rightarrow> jsval \<Rightarrow> handle_result"

text \<open>\<^verbatim>\<open>transport.sessionId\<close> after the call.\<close>

definition sessionId_of :: "handle_result \<Rightarrow> string option" where
  "sessionId_of h = map_option randomUUID (hr_generated h)"

text \<open>What one request does to the world outside the registry and the response, in order.\<close>

datatype event =
    ConsoleLog jsval
  | ConsoleError js_error
  | NewTransport transport
  | Connected transport
  | Invoked transport jsval

text \<open>
  What the handlers read of a request: \<^verbatim>\<open>req.headers['mcp-session-id']\<close>, a string
  or \<open>undefined\<close>, and \<^verbatim>\<open>req.body\<close>.
\<close>

record request =
  mcp_session_id :: "string option"
  body :: jsval

text \<open>
  The state one request works on. Of what a transport writes to the response, only the
  flag \<open>headersSent\<close> is kept; status, headers and body are those the handler itself
  has set.
\<close>

record dstate =
  transports :: registry
  res :: response
  trace :: "event list"

definition emit :: "event \<Rightarrow> dstate \<Rightarrow> dstate" where
  "emit e s = s\<lparr>trace := trace s @ [e]\<rparr>"

section \<open>The dispatcher\<close>

definition bad_request_body :: jsval where
  "bad_request_body =
     JObj [''jsonrpc'' \<mapsto> JStr ''2.0'',
           ''error'' \<mapsto> JObj [''code'' \<mapsto> JNum (- 32000),
                               ''message'' \<mapsto> JStr ''Bad Request: No valid session ID provided''],
           ''id'' \<mapsto> JNull]"

definition internal_error_body :: jsval where
  "internal_error_body =
     JObj [''jsonrpc'' \<mapsto> JStr ''2.0'',
           ''error'' \<mapsto> JObj [''code'' \<mapsto> JNum (- 32603),
                               ''message'' \<mapsto> JStr ''Internal server error''],
           ''id'' \<mapsto> JNull]"

text \<open>
  \<^verbatim>\<open>await transport.handleRequest(req, res, req.body)\<close> on a transport object: the call
  is made, the transport may write to the response, and the call returns or throws.
\<close>

definition transport_handleRequest ::
  "collaborators \<Rightarrow> transport \<Rightarrow> jsval \<Rightarrow> dstate \<Rightarrow> js_error option \<times> dstate" where
  "transport_handleRequest c t b s =
     (let h = handleRequest c t b;
          s' = (emit (Invoked t b) s)\<lparr>res := (res s)\<lparr>headersSent := hr_headersSent h\<rparr>\<rparr>
      in (hr_error h, s'))"

text \<open>
  The same statement on whatever the registry read returned. A built-in member of
  \<open>Object.prototype\<close> has no property \<open>handleRequest\<close>, so calling it throws a TypeError
  before anything is invoked or written.
\<close>

fun call_handleRequest ::
  "collaborators \<Rightarrow> property \<Rightarrow> jsval \<Rightarrow> dstate \<Rightarrow> js_error option \<times> dstate" where
  "call_handleRequest c (TransportObj t) b s = transport_handleRequest c t b s"
| "call_handleRequest c (Builtin k) b s = (Some TypeError, s)"
| "call_handleRequest c Undefined b s = (Some TypeError, s)"

text \<open>
  The value of \<^verbatim>\<open>sessionId && transports[sessionId]\<close> as far as its use as a condition
  and as the transport goes: falsy when the header is missing or empty, else the registry
  read.
\<close>

fun session_lookup :: "registry \<Rightarrow> string option \<Rightarrow> property" where
  "session_lookup r None = Undefined"
| "session_lookup r (Some k) = (if k = [] then Undefined else transports_get r k)"

text \<open>
  The branch for a new session:
  \<^verbatim>\<open>
  transport = new StreamableHTTPServerTransport({ sessionIdGenerator: () => randomUUID(), ... });
  await server.connect(transport);
  await transport.handleRequest(req, res, req.body);
  if (transport.sessionId) {
      transports[transport.sessionId] = transport;
  }
  return;
  \<close>
\<close>

definition create_session :: "collaborators \<Rightarrow> jsval \<Rightarrow> dstate \<Rightarrow> js_error option \<times> dstate" where
  "create_session c b s =
     (case new_transport c of
        Inl e \<Rightarrow> (Some e, s)
      | Inr t \<Rightarrow>
          let s1 = emit (NewTransport t) s
          in (case connect c t of
                Some e \<Rightarrow> (Some e, s1)
              | None \<Rightarrow>
                  let s2 = emit (Connected t) s1;
                      (err, s3) = transport_handleRequest c t b s2
                  in (case err of
                        Some e \<Rightarrow> (Some e, s3)
                      | None \<Rightarrow>
                          (case sessionId_of (handleRequest c t b) of
                             None \<Rightarrow> (None, s3)
                           | Some sid \<Rightarrow>
                               if sid \<noteq> []
                               then (None, s3\<lparr>transports := transports_set (transports s3) sid t\<rparr>)
                               else (None, s3)))))"

text \<open>
  The body of the \<open>try\<close> block of \<^verbatim>\<open>app.post('/mcp', ...)\<close>. The result is the exception
  thrown inside the block, if any, and the state at that point.
\<close>

definition post_mcp_try :: "collaborators \<Rightarrow> request \<Rightarrow> dstate \<Rightarrow> js_error option \<times> dstate" where
  "post_mcp_try c req s =
     (let sessionId = mcp_session_id req;
          found = session_lookup (transports s) sessionId
      in if truthy_property found
         then call_handleRequest c found (body req) s
         else (case and_also (Inr (\<not> truthy_str sessionId)) (isInitializeRequest (body req)) of
                 Inl e \<Rightarrow> (Some e, s)
               | Inr True \<Rightarrow> create_session c (body req) s
               | Inr False \<Rightarrow> (None, s\<lparr>res := res_json bad_request_body (res_status 400 (res s))\<rparr>)))"

text \<open>
  The \<open>catch\<close> block:
  \<^verbatim>\<open>
  console.error('Error handling MCP request:', error);
  if (!res.headersSent) { res.status(500).json({...}); }
  \<close>
\<close>

definition catch_block :: "js_error \<Rightarrow> dstate \<Rightarrow> js_error option \<times> dstate" where
  "catch_block e s =
     (let s1 = emit (ConsoleError e) s
      in if \<not> headersSent (res s1)
         then (None, s1\<lparr>res := res_json internal_error_body (res_status 500 (res s1))\<rparr>)
         else (None, s1))"

text \<open>
  The state in which the \<open>try\<close> block is entered: the registry as it is when the request
  arrives, a response not yet begun, and
  \<^verbatim>\<open>console.log('Received MCP request:', req.body)\<close> done.
\<close>

definition request_start :: "request \<Rightarrow> registry \<Rightarrow> dstate" where
  "request_start req r = \<lparr>transports = r, res = fresh_response, trace = [ConsoleLog (body req)]\<rparr>"

text \<open>
  The handler of \<open>POST /mcp\<close>. The result is the exception that leaves the handler, if
  any, and the final state.
\<close>

definition post_mcp :: "collaborators \<Rightarrow> request \<Rightarrow> registry \<Rightarrow> js_error option \<times> dstate" where
  "post_mcp c req r =
     (case post_mcp_try c req (request_start req r) of
        (None, s) \<Rightarrow> (None, s)
      | (Some e, s) \<Rightarrow> catch_block e s)"

text \<open>
  The handler of \<open>GET /mcp\<close>:
  \<^verbatim>\<open>res.status(405).set('Allow', 'POST').send('Method Not Allowed');\<close>
\<close>

definition get_mcp :: "request \<Rightarrow> registry \<Rightarrow> js_error option \<times> dstate" where
  "get_mcp req r =
     (None, \<lparr>transports = r,
             res = res_send ''Method Not Allowed'' (res_set ''Allow'' ''POST'' (res_status 405 fresh_response)),
             trace = []\<rparr>)"

text \<open>
  The registries the server can hold: empty at start, changed by the handlers only.
\<close>

inductive reachable :: "registry \<Rightarrow> bool" where
  start: "reachable Map.empty"
| post: "reachable r \<Longrightarrow> reachable (transports (snd (post_mcp c req r)))"
| get: "reachable r \<Longrightarrow> reachable (transports (snd (get_mcp req r)))"

text \<open>The events that construct, bind or invoke a transport.\<close>

fun touches_transport :: "event \<Rightarrow> bool" where
  "touches_transport (NewTransport t) = True"
| "touches_transport (Connected t) = True"
| "touches_transport (Invoked t b) = True"
| "touches_transport e = False"

section \<open>Example requests and collaborators\<close>

definition initialize_body :: jsval where
  "initialize_body =
     JObj [''jsonrpc'' \<mapsto> JStr ''2.0'', ''method'' \<mapsto> JStr ''initialize'', ''id'' \<mapsto> JStr ''1'']"

definition tools_call_body :: jsval where
  "tools_call_body =
     JObj [''jsonrpc'' \<mapsto> JStr ''2.0'', ''method'' \<mapsto> JStr ''tools/call'', ''id'' \<mapsto> JNum 7]"

text \<open>
  Collaborators that work: the constructor returns a transport, binding succeeds, and
  \<open>handleRequest\<close> answers the request and assigns a session identifier.
\<close>

definition working :: collaborators where
  "working =
     \<lparr>new_transport = Inr (Transport 1),
      connect = (\<lambda>t. None),
      handleRequest = (\<lambda>t b. \<lparr>hr_error = None, hr_headersSent = True, hr_generated = Some 0\<rparr>)\<rparr>"

text \<open>The same, with a transport that answers without ever assigning a session identifier.\<close>

definition no_session :: collaborators where
  "no_session =
     \<lparr>new_transport = Inr (Transport 1),
      connect = (\<lambda>t. None),
      handleRequest = (\<lambda>t b. \<lparr>hr_error = None, hr_headersSent = True, hr_generated = None\<rparr>)\<rparr>"


text \<open>
  A later initialize request whose new transport draws the identifier that \<open>working\<close>
  drew before.
\<close>

definition colliding :: collaborators where
  "colliding =
     \<lparr>new_transport = Inr (Transport 2),
      connect = (\<lambda>t. None),
      handleRequest = (\<lambda>t b. \<lparr>hr_error = None, hr_headersSent = True, hr_generated = Some 0\<rparr>)\<rparr>"



section \<open>Properties of the classifier\<close>

lemma is_initialize_message_eq:
  "is_initialize_message msg = Inr (spec_initialize_mapping msg)"
proof (cases msg)
  case (JObj ps)
  show ?thesis
  proof (cases "ps ''method''")
    case None
    with JObj show ?thesis by (simp add: is_initialize_message_def)
  next
    case (Some m)
    with JObj show ?thesis
      by (cases m) (auto simp: is_initialize_message_def)
  qed
qed (simp_all add: is_initialize_message_def)

lemma some_is_initialize_message:
  "some is_initialize_message xs = Inr (\<exists>m \<in> set xs. spec_initialize_mapping m)"
proof (induction xs)
  case Nil
  show ?case by simp
next
  case (Cons x xs)
  show ?case
    by (cases "spec_initialize_mapping x")
       (simp_all add: Cons.IH is_initialize_message_eq [of x])
qed

lemma isInitializeRequest_eq:
  "isInitializeRequest B =
     Inr (spec_initialize_mapping B \<or>
          (\<exists>xs. B = JArr xs \<and> (\<exists>m \<in> set xs. spec_initialize_mapping m)))"
  by (cases B) (simp_all add: is_initialize_message_eq some_is_initialize_message)

lemma unguarded_access_throws:
  "in_method JNull = Inl TypeError"
  "in_method (JStr s) = Inl TypeError"
  "get_method JNull = Inl TypeError"
  "get_method JUndefined = Inl TypeError"
  by simp_all

section \<open>Properties of the registry and of the dispatcher\<close>

lemma length_hex_digits: "length (hex_digits k n) = k"
  by (induction k arbitrary: n) simp_all

lemma length_randomUUID: "length (randomUUID bits) = 36"
  by (simp add: randomUUID_def Let_def length_hex_digits)

lemma randomUUID_nonempty: "randomUUID bits \<noteq> []"
  using length_randomUUID [of bits] by auto

lemma randomUUID_not_inherited: "randomUUID bits \<notin> set object_prototype_keys"
proof
  assume "randomUUID bits \<in> set object_prototype_keys"
  then have "length (randomUUID bits) \<le> 20"
    by (auto simp: object_prototype_keys_def)
  then show False by (simp add: length_randomUUID)
qed

lemma transports_get_own: "r k = Some t \<Longrightarrow> transports_get r k = TransportObj t"
  by (simp add: transports_get_def)

lemma transports_get_set: "transports_get (transports_set r k t) k = TransportObj t"
  by (simp add: transports_get_def transports_set_def)

lemma transports_get_remove_uuid:
  "transports_get (transports_remove r (randomUUID bits)) (randomUUID bits) = Undefined"
  by (simp add: transports_get_def transports_remove_def randomUUID_not_inherited)

lemma transport_handleRequest_simps:
  "fst (transport_handleRequest c t b s) = hr_error (handleRequest c t b)"
  "transports (snd (transport_handleRequest c t b s)) = transports s"
  "trace (snd (transport_handleRequest c t b s)) = trace s @ [Invoked t b]"
  "res (snd (transport_handleRequest c t b s)) = (res s)\<lparr>headersSent := hr_headersSent (handleRequest c t b)\<rparr>"
  by (simp_all add: transport_handleRequest_def emit_def Let_def)

lemma catch_block_simps:
  "fst (catch_block e s) = None"
  "transports (snd (catch_block e s)) = transports s"
  "trace (snd (catch_block e s)) = trace s @ [ConsoleError e]"
  "res (snd (catch_block e s)) =
     (if headersSent (res s) then res s
      else (res s)\<lparr>statusCode := 500, sent := Some (Json internal_error_body), headersSent := True\<rparr>)"
  by (simp_all add: catch_block_def emit_def Let_def res_json_def res_status_def)

lemma create_session_registry:
  "transports (snd (create_session c b s)) = transports s \<or>
   (\<exists>bits t. transports (snd (create_session c b s)) = (transports s)(randomUUID bits \<mapsto> t))"
  by (auto simp: create_session_def transport_handleRequest_def emit_def Let_def sessionId_of_def
        transports_set_def split: sum.splits option.splits)

lemma call_handleRequest_registry:
  "transports (snd (call_handleRequest c p b s)) = transports s"
  by (cases p) (simp_all add: transport_handleRequest_simps)

lemma post_mcp_try_registry:
  "transports (snd (post_mcp_try c req s)) = transports s \<or>
   (\<exists>bits t. transports (snd (post_mcp_try c req s)) = (transports s)(randomUUID bits \<mapsto> t))"
  using create_session_registry [of c "body req" s]
  by (auto simp: post_mcp_try_def Let_def call_handleRequest_registry
        split: sum.splits bool.splits)

lemma post_mcp_registry:
  "transports (snd (post_mcp c req r)) = r \<or>
   (\<exists>bits t. transports (snd (post_mcp c req r)) = r(randomUUID bits \<mapsto> t))"
proof -
  obtain err s where tr: "post_mcp_try c req (request_start req r) = (err, s)"
    by (cases "post_mcp_try c req (request_start req r)")
  have "transports (snd (post_mcp c req r)) = transports s"
    by (cases err) (simp_all add: post_mcp_def tr catch_block_simps)
  moreover have "transports (request_start req r) = r"
    by (simp add: request_start_def)
  ultimately show ?thesis
    using post_mcp_try_registry [of c req "request_start req r"] tr by simp
qed

lemma reachable_keys:
  "reachable r \<Longrightarrow> r k = Some t \<Longrightarrow> \<exists>bits. k = randomUUID bits"
proof (induction arbitrary: k t rule: reachable.induct)
  case start
  then show ?case by simp
next
  case (post r c req)
  from post_mcp_registry [of c req r] post show ?case
    by (auto split: if_splits)
next
  case (get r req)
  then show ?case by (simp add: get_mcp_def)
qed

lemma randomUUID_0: "randomUUID 0 = ''00000000-0000-0000-0000-000000000000''"
  by code_simp

lemma post_mcp_reject:
  assumes "session_lookup r (mcp_session_id req) = Undefined"
    and "\<not> (\<not> truthy_str (mcp_session_id req) \<and> isInitializeRequest (body req) = Inr True)"
  shows "post_mcp c req r =
           (None, \<lparr>transports = r,
                   res = \<lparr>statusCode = 400, headers = Map.empty,
                          sent = Some (Json bad_request_body), headersSent = True\<rparr>,
                   trace = [ConsoleLog (body req)]\<rparr>)"
proof -
  obtain b where b: "isInitializeRequest (body req) = Inr b"
    using isInitializeRequest_eq [of "body req"] by blast
  with assms have "and_also (Inr (\<not> truthy_str (mcp_session_id req))) (Inr b) = Inr False"
    by (cases "truthy_str (mcp_session_id req)") auto
  with assms(1) b show ?thesis
    by (simp add: post_mcp_def post_mcp_try_def request_start_def fresh_response_def
          res_json_def res_status_def)
qed


lemma create_branch:
  assumes "\<not> truthy_str (mcp_session_id req)" and "isInitializeRequest (body req) = Inr True"
  shows "post_mcp_try c req s = create_session c (body req) s"
proof -
  from assms(1) have "session_lookup (transports s) (mcp_session_id req) = Undefined"
    by (cases "mcp_session_id req") auto
  with assms show ?thesis
    by (simp add: post_mcp_try_def)
qed

lemma example_registry:
  "transports (snd (post_mcp working \<lparr>mcp_session_id = None, body = initialize_body\<rparr> Map.empty))
     = [''00000000-0000-0000-0000-000000000000'' \<mapsto> Transport 1]"
  by (simp add: post_mcp_def post_mcp_try_def request_start_def create_session_def
        transport_handleRequest_def emit_def sessionId_of_def transports_set_def
        initialize_body_def is_initialize_message_def working_def randomUUID_0)

lemma example_registry_reachable:
  "reachable [''00000000-0000-0000-0000-000000000000'' \<mapsto> Transport 1]"
  using reachable.post [OF reachable.start, of working
          "\<lparr>mcp_session_id = None, body = initialize_body\<rparr>"]
  by (simp only: example_registry)

lemma reuse_branch:
  assumes "reachable r" and "mcp_session_id req = Some k" and "r k = Some t"
    and that: "transports s = r"
  shows "post_mcp_try c req s = transport_handleRequest c t (body req) s"
proof -
  from assms(1,3) obtain bits where "k = randomUUID bits"
    using reachable_keys by blast
  then have "k \<noteq> []"
    by (simp add: randomUUID_nonempty)
  with assms(2,3) that have "session_lookup (transports s) (mcp_session_id req) = TransportObj t"
    by (simp add: transports_get_own)
  then show ?thesis
    by (simp add: post_mcp_try_def)
qed

lemma create_trace_cases:
  assumes "\<not> truthy_str (mcp_session_id req)" and "isInitializeRequest (body req) = Inr True"
  shows "(\<exists>e. new_transport c = Inl e \<and>
            trace (snd (post_mcp c req r)) = [ConsoleLog (body req), ConsoleError e]) \<or>
         (\<exists>t e. new_transport c = Inr t \<and> connect c t = Some e \<and>
            trace (snd (post_mcp c req r)) =
              [ConsoleLog (body req), NewTransport t, ConsoleError e]) \<or>
         (\<exists>t. new_transport c = Inr t \<and> connect c t = None \<and>
            trace (snd (post_mcp c req r)) =
              [ConsoleLog (body req), NewTransport t, Connected t, Invoked t (body req)]) \<or>
         (\<exists>t e. new_transport c = Inr t \<and> connect c t = None \<and>
            trace (snd (post_mcp c req r)) =
              [ConsoleLog (body req), NewTransport t, Connected t, Invoked t (body req),
               ConsoleError e])"
proof -
  have tr: "post_mcp c req r =
              (case create_session c (body req) (request_start req r) of
                 (None, s) \<Rightarrow> (None, s)
               | (Some e, s) \<Rightarrow> catch_block e s)"
    by (simp add: post_mcp_def create_branch [OF assms])
  show ?thesis
  proof (cases "new_transport c")
    case (Inl e)
    then show ?thesis
      by (simp add: tr create_session_def catch_block_simps request_start_def)
  next
    case (Inr t)
    show ?thesis
    proof (cases "connect c t")
      case (Some e)
      with Inr show ?thesis
        by (simp add: tr create_session_def catch_block_simps request_start_def
              emit_def)
    next
      case None
      show ?thesis
      proof (cases "hr_error (handleRequest c t (body req))")
        case (Some e)
        with Inr None show ?thesis
          by (simp add: tr create_session_def catch_block_simps request_start_def
                emit_def transport_handleRequest_def Let_def)
      next
        case nothrow: None
        with Inr None show ?thesis
          by (simp add: tr create_session_def request_start_def
                emit_def transport_handleRequest_def Let_def split: option.splits)
      qed
    qed
  qed
qed

lemma initialize_body_is_initialize: "isInitializeRequest initialize_body = Inr True"
  by (simp add: initialize_body_def is_initialize_message_def)

lemma post_mcp_create:
  assumes "\<not> truthy_str (mcp_session_id req)" and "isInitializeRequest (body req) = Inr True"
  shows "post_mcp c req r =
           (case create_session c (body req) (request_start req r) of
              (None, s) \<Rightarrow> (None, s)
            | (Some e, s) \<Rightarrow> catch_block e s)"
  by (simp add: post_mcp_def create_branch [OF assms])







section \<open>The claims\<close>

text \<open>
  C1. For every body \<open>B\<close>, \<open>isInitializeRequest B\<close> returns true if and only if \<open>B\<close> is a
  mapping containing the key \<open>method\<close> with the value \<open>initialize\<close>, or \<open>B\<close> is a
  sequence at least one of whose elements is such a mapping; for every other shape
  (null, a scalar, a sequence of non-mappings) it returns false.
\<close>

theorem isInitializeRequest_iff:
  "isInitializeRequest B =
     Inr (spec_initialize_mapping B \<or>
          (\<exists>xs. B = JArr xs \<and> (\<exists>m \<in> set xs. spec_initialize_mapping m)))"
  by (rule isInitializeRequest_eq)

theorem isInitializeRequest_iff_witness:
  "isInitializeRequest (JArr [JNull, JNum 7, JObj [''method'' \<mapsto> JStr ''initialize'']]) = Inr True
   \<and> isInitializeRequest (JObj [''method'' \<mapsto> JStr ''tools/call'']) = Inr False
   \<and> isInitializeRequest JNull = Inr False
   \<and> isInitializeRequest (JArr [JArr [JObj [''method'' \<mapsto> JStr ''initialize'']]]) = Inr False"
  using isInitializeRequest_iff [of "JArr [JNull, JNum 7, JObj [''method'' \<mapsto> JStr ''initialize'']]"]
    isInitializeRequest_iff [of "JObj [''method'' \<mapsto> JStr ''tools/call'']"]
    isInitializeRequest_iff [of JNull]
    isInitializeRequest_iff [of "JArr [JArr [JObj [''method'' \<mapsto> JStr ''initialize'']]]"]
  by simp

text \<open>
  C2. The claim: every \<open>POST /mcp\<close> request that neither names a registered session
  nor is an initialize request without a session identifier is answered with HTTP 400 and
  the error \<open>-32000\<close>, and no transport is touched. The handler does this whenever the
  registry read yields \<open>undefined\<close> (\<open>post_mcp_reject\<close>). It does not when the header
  names a member of \<open>Object.prototype\<close>: the read then yields the inherited built-in, the
  reuse branch is taken, the call of \<open>handleRequest\<close> on the built-in throws, and the
  answer is HTTP 500 with the error \<open>-32603\<close> (\<open>post_mcp_inherited\<close>). Here a request
  with the header \<open>mcp-session-id: constructor\<close> and a \<open>tools/call\<close> body reaches a server
  that has no session at all, whatever the collaborators do.
\<close>

theorem post_mcp_constructor_header:
  "post_mcp c \<lparr>mcp_session_id = Some ''constructor'', body = tools_call_body\<rparr> Map.empty =
     (None, \<lparr>transports = Map.empty,
             res = \<lparr>statusCode = 500, headers = Map.empty,
                    sent = Some (Json internal_error_body), headersSent = True\<rparr>,
             trace = [ConsoleLog tools_call_body, ConsoleError TypeError]\<rparr>)"
  by (simp add: post_mcp_def post_mcp_try_def request_start_def fresh_response_def
        transports_get_def object_prototype_keys_def catch_block_def emit_def
        res_json_def res_status_def)

text \<open>
  C3, as claimed: whenever the transport created for an initialize request exposes a
  session identifier, exactly one new registry entry is added under it. The store is a
  plain assignment. On the registry that holds \<open>Transport 1\<close> under an identifier, an
  initialize request whose new transport \<open>Transport 2\<close> reports the same identifier meets
  every condition of the claim, yet no entry is added: the set of keys is the same, and the
  entry of the other session is replaced.
\<close>

theorem create_collision_counterexample:
  "reachable [''00000000-0000-0000-0000-000000000000'' \<mapsto> Transport 1]
   \<and> \<not> truthy_str (mcp_session_id \<lparr>mcp_session_id = None, body = initialize_body\<rparr>)
   \<and> isInitializeRequest (body \<lparr>mcp_session_id = None, body = initialize_body\<rparr>) = Inr True
   \<and> new_transport colliding = Inr (Transport 2)
   \<and> connect colliding (Transport 2) = None
   \<and> hr_error (handleRequest colliding (Transport 2) initialize_body) = None
   \<and> sessionId_of (handleRequest colliding (Transport 2) initialize_body)
       = Some ''00000000-0000-0000-0000-000000000000''
   \<and> transports (snd (post_mcp colliding \<lparr>mcp_session_id = None, body = initialize_body\<rparr>
         [''00000000-0000-0000-0000-000000000000'' \<mapsto> Transport 1]))
       = [''00000000-0000-0000-0000-000000000000'' \<mapsto> Transport 2]
   \<and> dom (transports (snd (post_mcp colliding \<lparr>mcp_session_id = None, body = initialize_body\<rparr>
         [''00000000-0000-0000-0000-000000000000'' \<mapsto> Transport 1])))
       - dom [''00000000-0000-0000-0000-000000000000'' \<mapsto> Transport 1] = {}"
proof -
  have reg: "transports (snd (post_mcp colliding \<lparr>mcp_session_id = None, body = initialize_body\<rparr>
         [''00000000-0000-0000-0000-000000000000'' \<mapsto> Transport 1]))
       = [''00000000-0000-0000-0000-000000000000'' \<mapsto> Transport 2]"
    by (simp add: post_mcp_def post_mcp_try_def request_start_def create_session_def
          transport_handleRequest_def emit_def sessionId_of_def transports_set_def
          initialize_body_is_initialize colliding_def randomUUID_0)
  have sid: "sessionId_of (handleRequest colliding (Transport 2) initialize_body)
          = Some ''00000000-0000-0000-0000-000000000000''"
    by (simp add: colliding_def sessionId_of_def randomUUID_0)
  have col: "new_transport colliding = Inr (Transport 2)"
    "connect colliding (Transport 2) = None"
    "hr_error (handleRequest colliding (Transport 2) initialize_body) = None"
    by (simp_all add: colliding_def)
  have init: "\<not> truthy_str (mcp_session_id \<lparr>mcp_session_id = None, body = initialize_body\<rparr>)"
    "isInitializeRequest (body \<lparr>mcp_session_id = None, body = initialize_body\<rparr>) = Inr True"
    by (simp_all add: initialize_body_is_initialize)
  have diff: "dom (transports (snd (post_mcp colliding
                 \<lparr>mcp_session_id = None, body = initialize_body\<rparr>
                 [''00000000-0000-0000-0000-000000000000'' \<mapsto> Transport 1])))
       - dom [''00000000-0000-0000-0000-000000000000'' \<mapsto> Transport 1] = {}"
    by (simp only: reg) simp
  from example_registry_reachable init col sid reg diff show ?thesis
    by (intro conjI)
qed

text \<open>
  C3, as amended. A \<open>POST /mcp\<close> request without a session identifier and with an
  initialize body creates a transport. Once its \<open>handleRequest\<close> call has returned: if
  the transport exposes a session identifier, that identifier is non-empty and the registry
  is the old one with that identifier mapped to that transport, every other entry as it
  was; this is exactly one new entry when the identifier was not a key before, and the
  replacement of the entry stored under it, with no new entry, when it was. If the
  transport exposes no session identifier, the registry is unchanged and the transport is
  discarded.
\<close>

theorem create_registers_session:
  assumes "\<not> truthy_str (mcp_session_id req)"
    and "isInitializeRequest (body req) = Inr True"
    and "new_transport c = Inr t"
    and "connect c t = None"
    and "hr_error (handleRequest c t (body req)) = None"
  shows "(\<forall>sid. sessionId_of (handleRequest c t (body req)) = Some sid \<longrightarrow>
            sid \<noteq> [] \<and>
            transports (snd (post_mcp c req r)) = r(sid \<mapsto> t) \<and>
            (r sid = None \<longrightarrow> dom (transports (snd (post_mcp c req r))) - dom r = {sid}) \<and>
            (r sid \<noteq> None \<longrightarrow> dom (transports (snd (post_mcp c req r))) = dom r)) \<and>
         (sessionId_of (handleRequest c t (body req)) = None \<longrightarrow>
            transports (snd (post_mcp c req r)) = r)"
proof -
  let ?s = "request_start req r"
  have nonempty: "sid \<noteq> []" if "sessionId_of (handleRequest c t (body req)) = Some sid" for sid
    using that by (auto simp: sessionId_of_def randomUUID_nonempty)
  have ok: "fst (create_session c (body req) ?s) = None"
    using assms(3-5)
    by (simp add: create_session_def transport_handleRequest_def Let_def split: option.splits)
  have reg: "transports (snd (create_session c (body req) ?s)) =
               (case sessionId_of (handleRequest c t (body req)) of
                  None \<Rightarrow> r | Some sid \<Rightarrow> r(sid \<mapsto> t))"
    using assms(3-5) nonempty
    by (simp add: create_session_def transport_handleRequest_def emit_def Let_def
          request_start_def transports_set_def split: option.splits)
  have "transports (snd (post_mcp c req r)) = transports (snd (create_session c (body req) ?s))"
    using ok
    by (cases "create_session c (body req) ?s") (simp add: post_mcp_create [OF assms(1,2)])
  with reg nonempty show ?thesis
    by (auto split: option.splits)
qed

theorem create_registers_session_witness:
  "transports (snd (post_mcp working \<lparr>mcp_session_id = None, body = initialize_body\<rparr> Map.empty))
     = [''00000000-0000-0000-0000-000000000000'' \<mapsto> Transport 1]
   \<and> transports (snd (post_mcp no_session \<lparr>mcp_session_id = None, body = initialize_body\<rparr> Map.empty))
     = Map.empty"
proof -
  have init: "isInitializeRequest (body \<lparr>mcp_session_id = None, body = initialize_body\<rparr>) = Inr True"
    by (simp add: initialize_body_def is_initialize_message_def)
  have a: "sessionId_of (handleRequest working (Transport 1) initialize_body)
             = Some ''00000000-0000-0000-0000-000000000000''"
    by (simp add: working_def sessionId_of_def randomUUID_0)
  have b: "sessionId_of (handleRequest no_session (Transport 1) initialize_body) = None"
    by (simp add: no_session_def sessionId_of_def)
  show ?thesis
    using create_registers_session [of "\<lparr>mcp_session_id = None, body = initialize_body\<rparr>"
            working "Transport 1" Map.empty, OF _ init]
          create_registers_session [of "\<lparr>mcp_session_id = None, body = initialize_body\<rparr>"
            no_session "Transport 1" Map.empty, OF _ init]
          a b
    by (simp add: working_def no_session_def)
qed

text \<open>
  C4. For every registry the server can hold and every \<open>POST /mcp\<close> request whose session
  identifier header has an entry in it, the body is forwarded to \<open>handleRequest\<close> of
  exactly the stored transport, no transport is constructed or bound, and the registry is
  left unchanged.
\<close>

theorem reuse_stored_transport:
  assumes "reachable r" and "mcp_session_id req = Some k" and "r k = Some t"
  shows "transports (snd (post_mcp c req r)) = r \<and>
         filter touches_transport (trace (snd (post_mcp c req r))) = [Invoked t (body req)]"
proof -
  let ?s = "request_start req r"
  have tr: "post_mcp_try c req ?s = transport_handleRequest c t (body req) ?s"
    using assms by (rule reuse_branch) (simp add: request_start_def)
  obtain err s where s: "transport_handleRequest c t (body req) ?s = (err, s)"
    by (cases "transport_handleRequest c t (body req) ?s")
  have reg: "transports s = r" and trc: "trace s = [ConsoleLog (body req), Invoked t (body req)]"
    using transport_handleRequest_simps(2,3) [of c t "body req" ?s] s
    by (simp_all add: request_start_def)
  show ?thesis
  proof (cases err)
    case None
    with s tr reg trc show ?thesis
      by (simp add: post_mcp_def)
  next
    case (Some e)
    with s tr reg trc show ?thesis
      by (simp add: post_mcp_def catch_block_simps)
  qed
qed

theorem reuse_stored_transport_witness:
  "transports (snd (post_mcp working
       \<lparr>mcp_session_id = Some ''00000000-0000-0000-0000-000000000000'', body = tools_call_body\<rparr>
       [''00000000-0000-0000-0000-000000000000'' \<mapsto> Transport 1]))
     = [''00000000-0000-0000-0000-000000000000'' \<mapsto> Transport 1]
   \<and> filter touches_transport (trace (snd (post_mcp working
       \<lparr>mcp_session_id = Some ''00000000-0000-0000-0000-000000000000'', body = tools_call_body\<rparr>
       [''00000000-0000-0000-0000-000000000000'' \<mapsto> Transport 1])))
     = [Invoked (Transport 1) tools_call_body]"
  using reuse_stored_transport [OF example_registry_reachable,
          of "\<lparr>mcp_session_id = Some ''00000000-0000-0000-0000-000000000000'', body = tools_call_body\<rparr>"
             "''00000000-0000-0000-0000-000000000000''" "Transport 1" working]
  by simp

text \<open>
  C5, as claimed: a write under an identifier that the registry already maps to a different
  transport is rejected and the existing entry is preserved. The assignment has no such
  check: with \<open>Transport 1\<close> stored under an identifier, writing \<open>Transport 2\<close> under
  it changes the registry, and the identifier then reads as \<open>Transport 2\<close>.
\<close>

theorem put_overwrites_counterexample:
  "[''00000000-0000-0000-0000-000000000000'' \<mapsto> Transport 1]
       ''00000000-0000-0000-0000-000000000000'' = Some (Transport 1)
   \<and> Transport 1 \<noteq> Transport 2
   \<and> transports_set [''00000000-0000-0000-0000-000000000000'' \<mapsto> Transport 1]
        ''00000000-0000-0000-0000-000000000000'' (Transport 2)
      \<noteq> [''00000000-0000-0000-0000-000000000000'' \<mapsto> Transport 1]
   \<and> transports_get
        (transports_set [''00000000-0000-0000-0000-000000000000'' \<mapsto> Transport 1]
           ''00000000-0000-0000-0000-000000000000'' (Transport 2))
        ''00000000-0000-0000-0000-000000000000'' = TransportObj (Transport 2)"
proof -
  have "transports_set [''00000000-0000-0000-0000-000000000000'' \<mapsto> Transport 1]
          ''00000000-0000-0000-0000-000000000000'' (Transport 2)
          ''00000000-0000-0000-0000-000000000000''
        \<noteq> [''00000000-0000-0000-0000-000000000000'' \<mapsto> Transport 1]
            ''00000000-0000-0000-0000-000000000000''"
    by (simp add: transports_set_def)
  then have "transports_set [''00000000-0000-0000-0000-000000000000'' \<mapsto> Transport 1]
          ''00000000-0000-0000-0000-000000000000'' (Transport 2)
        \<noteq> [''00000000-0000-0000-0000-000000000000'' \<mapsto> Transport 1]"
    by metis
  then show ?thesis
    by (simp add: transports_get_set)
qed

text \<open>
  C5, as amended. For every registry and every write under a session identifier: the
  write is never rejected; afterwards the identifier reads as the transport written,
  replacing whatever it was mapped to before, and every other key is as it was. Writing the
  transport that is already stored there changes nothing.
\<close>

theorem put_replaces:
  "transports_get (transports_set r (randomUUID bits) t) (randomUUID bits) = TransportObj t \<and>
   (\<forall>k. k \<noteq> randomUUID bits \<longrightarrow> transports_set r (randomUUID bits) t k = r k) \<and>
   (r (randomUUID bits) = Some t \<longrightarrow> transports_set r (randomUUID bits) t = r)"
  by (auto simp: transports_get_def transports_set_def)

theorem put_replaces_witness:
  "transports_get (transports_set [randomUUID 0 \<mapsto> Transport 1] (randomUUID 0) (Transport 2))
     (randomUUID 0) = TransportObj (Transport 2)
   \<and> transports_set [randomUUID 0 \<mapsto> Transport 1] (randomUUID 0) (Transport 2) ''other''
       = [randomUUID 0 \<mapsto> Transport 1] ''other''
   \<and> transports_set [randomUUID 0 \<mapsto> Transport 1] (randomUUID 0) (Transport 1)
       = [randomUUID 0 \<mapsto> Transport 1]"
proof -
  have "''other'' \<noteq> randomUUID 0"
    by (simp add: randomUUID_0)
  then show ?thesis
    using put_replaces [of "[randomUUID 0 \<mapsto> Transport 1]" 0 "Transport 2"]
      put_replaces [of "[randomUUID 0 \<mapsto> Transport 1]" 0 "Transport 1"]
    by simp
qed



text \<open>
  C7. In every execution of the branch that creates a session, wherever \<open>handleRequest\<close>
  is invoked on a transport, \<open>server.connect\<close> on that transport has completed without an
  exception earlier in the same execution; and when \<open>server.connect\<close> throws,
  \<open>handleRequest\<close> is not invoked at all.
\<close>

theorem connect_before_handleRequest:
  assumes "\<not> truthy_str (mcp_session_id req)" and "isInitializeRequest (body req) = Inr True"
  shows "(\<forall>pre t b post. trace (snd (post_mcp c req r)) = pre @ Invoked t b # post \<longrightarrow>
            Connected t \<in> set pre \<and> connect c t = None) \<and>
         (\<forall>t e. new_transport c = Inr t \<and> connect c t = Some e \<longrightarrow>
            (\<forall>t' b. Invoked t' b \<notin> set (trace (snd (post_mcp c req r)))))"
  using create_trace_cases [OF assms, of c r]
  by (elim disjE exE conjE) (auto simp: append_eq_Cons_conv Cons_eq_append_conv)

theorem connect_before_handleRequest_witness:
  "trace (snd (post_mcp working \<lparr>mcp_session_id = None, body = initialize_body\<rparr> Map.empty))
     = [ConsoleLog initialize_body, NewTransport (Transport 1), Connected (Transport 1)]
       @ Invoked (Transport 1) initialize_body # []
   \<and> Connected (Transport 1)
       \<in> set [ConsoleLog initialize_body, NewTransport (Transport 1), Connected (Transport 1)]"
proof -
  have init: "isInitializeRequest (body \<lparr>mcp_session_id = None, body = initialize_body\<rparr>) = Inr True"
    by (simp add: initialize_body_def is_initialize_message_def)
  have tr: "trace (snd (post_mcp working \<lparr>mcp_session_id = None, body = initialize_body\<rparr> Map.empty))
     = [ConsoleLog initialize_body, NewTransport (Transport 1), Connected (Transport 1)]
       @ Invoked (Transport 1) initialize_body # []"
    by (simp add: post_mcp_def post_mcp_try_def request_start_def create_session_def
        transport_handleRequest_def emit_def sessionId_of_def transports_set_def
        initialize_body_def is_initialize_message_def working_def randomUUID_0)
  from connect_before_handleRequest [of "\<lparr>mcp_session_id = None, body = initialize_body\<rparr>"
         working Map.empty, OF _ init] tr
  show ?thesis by simp
qed

text \<open>
  C8. For every \<open>GET /mcp\<close> request, whatever its headers and whatever the registry
  holds, the response is HTTP 405 with the header \<open>Allow: POST\<close> (and the text
  \<open>Method Not Allowed\<close>); the registry is not changed and no transport is touched.
\<close>

theorem get_mcp_method_not_allowed:
  "fst (get_mcp req r) = None \<and>
   statusCode (res (snd (get_mcp req r))) = 405 \<and>
   headers (res (snd (get_mcp req r))) ''Allow'' = Some ''POST'' \<and>
   sent (res (snd (get_mcp req r))) = Some (Text ''Method Not Allowed'') \<and>
   transports (snd (get_mcp req r)) = r \<and>
   trace (snd (get_mcp req r)) = []"
  by (simp add: get_mcp_def res_send_def res_set_def res_status_def fresh_response_def)

theorem get_mcp_method_not_allowed_witness:
  "statusCode (res (snd (get_mcp
      \<lparr>mcp_session_id = Some ''00000000-0000-0000-0000-000000000000'', body = JUndefined\<rparr>
      [''00000000-0000-0000-0000-000000000000'' \<mapsto> Transport 1]))) = 405
   \<and> headers (res (snd (get_mcp
      \<lparr>mcp_session_id = Some ''00000000-0000-0000-0000-000000000000'', body = JUndefined\<rparr>
      [''00000000-0000-0000-0000-000000000000'' \<mapsto> Transport 1]))) ''Allow'' = Some ''POST''"
  using get_mcp_method_not_allowed
          [of "\<lparr>mcp_session_id = Some ''00000000-0000-0000-0000-000000000000'', body = JUndefined\<rparr>"
              "[''00000000-0000-0000-0000-000000000000'' \<mapsto> Transport 1]"]
  by simp

text \<open>
  C9. For every session identifier \<open>S\<close> and transport \<open>T\<close>: after registering \<open>T\<close>
  under \<open>S\<close>, reading \<open>S\<close> returns \<open>T\<close>; after removing \<open>S\<close>, reading \<open>S\<close> returns
  \<open>undefined\<close>. (Removal is the operation of the specification; the source has none.)
\<close>

theorem registry_round_trip:
  "transports_get (transports_set r (randomUUID bits) t) (randomUUID bits) = TransportObj t \<and>
   transports_get (transports_remove (transports_set r (randomUUID bits) t) (randomUUID bits))
     (randomUUID bits) = Undefined"
  by (simp add: transports_get_set transports_get_remove_uuid)

theorem registry_round_trip_witness:
  "transports_get (transports_set Map.empty (randomUUID 0) (Transport 1)) (randomUUID 0)
     = TransportObj (Transport 1)
   \<and> transports_get (transports_remove (transports_set Map.empty (randomUUID 0) (Transport 1))
        (randomUUID 0)) (randomUUID 0) = Undefined"
  using registry_round_trip [of Map.empty 0 "Transport 1"]
  by simp

text \<open>
  C10. \<open>isInitializeRequest\<close> is total and exception-free: for every input value
  (null, undefined, a scalar, a mapping, a sequence of arbitrary mixed elements) it
  returns a boolean and never throws, although \<open>in\<close> and the property read do throw
  on operands the guards let through to them (\<open>unguarded_access_throws\<close>).
\<close>

theorem isInitializeRequest_total:
  "\<exists>b. isInitializeRequest B = Inr b"
  by (simp add: isInitializeRequest_eq)

theorem isInitializeRequest_total_witness:
  "\<exists>b. isInitializeRequest (JArr [JNull, JUndefined, JStr ''x'', JBool True]) = Inr b"
  using isInitializeRequest_total [of "JArr [JNull, JUndefined, JStr ''x'', JBool True]"]
  by simp

end
